theory Spec2Isabelle
  imports Main "HOL-Library.Word"
begin

section \<open>Go strings\<close>

text \<open>
  A Go string is a byte sequence; it is modelled as a \<^typ>\<open>string\<close> (a list of 8-bit
  characters).  The connector calls three functions of the standard library's package
  \<open>strings\<close>: \<open>ToLower\<close>, \<open>ToUpper\<close> and \<open>EqualFold\<close>.  They are not the
  repository's code, and their Unicode case tables are no part of this development, so
  they are parameters of the model: every function of the connector that calls one of
  them takes the library as its first argument, and every property below is proved for
  whatever functions the library holds.
\<close>

record strings_pkg =
  ToLower :: "string \<Rightarrow> string"
  ToUpper :: "string \<Rightarrow> string"
  EqualFold :: "string \<Rightarrow> string \<Rightarrow> bool"

text \<open>
  The library on ASCII strings.  On a string all of whose bytes are below 128 the Go
  functions replace a letter by the letter at the same place in the other alphabet and
  keep every other byte, and \<open>EqualFold\<close> compares the lower-cased strings.
  \<open>asciiStrings\<close> is that library; it serves to evaluate the connector on the fixtures
  of this development, whose strings are all ASCII, and says nothing about other strings.
\<close>

definition upperLetters :: string where
  "upperLetters = ''ABCDEFGHIJKLMNOPQRSTUVWXYZ''"

definition lowerLetters :: string where
  "lowerLetters = ''abcdefghijklmnopqrstuvwxyz''"

definition toLowerByte :: "char \<Rightarrow> char" where
  "toLowerByte c = (case map_of (zip upperLetters lowerLetters) c of Some l \<Rightarrow> l | None \<Rightarrow> c)"

definition toUpperByte :: "char \<Rightarrow> char" where
  "toUpperByte c = (case map_of (zip lowerLetters upperLetters) c of Some u \<Rightarrow> u | None \<Rightarrow> c)"

definition asciiStrings :: strings_pkg where
  "asciiStrings =
     \<lparr>ToLower = map toLowerByte,
      ToUpper = map toUpperByte,
      EqualFold = (\<lambda>s t. map toLowerByte s = map toLowerByte t)\<rparr>"

section \<open>Package connector: errors, options and collections\<close>

text \<open>
  The package's sentinel errors, and the errors of its collaborators: \<open>ErrExternal msg\<close>
  is an error value returned by a driver or a client, \<open>ErrCouldNotAddStream name cause\<close>
  is the error built by \<open>fmt.Errorf("could not add nats stream %v: %v", name, cause)\<close>.
\<close>

datatype error =
    ErrDbNameMissing
  | ErrCollNameMissing
  | ErrInvalidCollSizeInBytes
  | ErrInvalidDbAndCollNames
  | ErrExternal string
  | ErrCouldNotAddStream string error

datatype Level = DebugLevel | InfoLevel | WarnLevel | ErrorLevel

datatype "context" = Background | TODO | UserContext nat

datatype CancelFunc = SignalStop

text \<open>\<open>type collection struct\<close>; \<open>tokensCollSizeInBytes\<close> is an \<open>int64\<close>.\<close>

record collection =
  dbName :: string
  collName :: string
  changeStreamPreAndPostImages :: bool
  tokensDbName :: string
  tokensCollName :: string
  tokensCollCapped :: bool
  tokensCollSizeInBytes :: "64 word"
  streamName :: string

text \<open>\<open>type Options struct\<close>; a nil \<open>stop\<close> is \<open>None\<close>.\<close>

record Options =
  logLevel :: Level
  mongoUri :: string
  natsUrl :: string
  ctx :: "context"
  stop :: "CancelFunc option"
  serverAddr :: string
  collections :: "collection list"

definition defaultLogLevel :: Level where
  "defaultLogLevel = InfoLevel"

definition defaultChangeStreamPreAndPostImages :: bool where
  "defaultChangeStreamPreAndPostImages = False"

definition defaultTokensDbName :: string where
  "defaultTokensDbName = ''resume-tokens''"

definition defaultTokensCollCapped :: bool where
  "defaultTokensCollCapped = False"

definition defaultTokensCollSizeInBytes :: "64 word" where
  "defaultTokensCollSizeInBytes = 0"

text \<open>\<open>getDefaultOptions\<close>: the fields it does not set hold Go's zero values.\<close>

definition getDefaultOptions :: Options where
  "getDefaultOptions =
     \<lparr>logLevel = defaultLogLevel, mongoUri = [], natsUrl = [], ctx = Background,
      stop = None, serverAddr = [], collections = []\<rparr>"

subsection \<open>Collection options\<close>

text \<open>
  A \<open>CollectionOption\<close> is a closure \<open>func(*collection) error\<close> that writes through the
  pointer it is given.  Each constructor below stands for the closure its Go function
  returns, and \<open>applyCollectionOption\<close> is the body of that closure: it returns the
  error (\<open>None\<close> for nil) together with the collection as the call leaves it.
\<close>

datatype CollectionOption =
    WithChangeStreamPreAndPostImages
  | WithTokensDbName string
  | WithTokensCollName string
  | WithTokensCollCapped "64 word"
  | WithStreamName string

fun applyCollectionOption ::
  "CollectionOption \<Rightarrow> collection \<Rightarrow> error option \<times> collection" where
  "applyCollectionOption WithChangeStreamPreAndPostImages c =
     (None, c\<lparr>changeStreamPreAndPostImages := True\<rparr>)"
| "applyCollectionOption (WithTokensDbName name) c =
     (if name \<noteq> [] then (None, c\<lparr>tokensDbName := name\<rparr>) else (None, c))"
| "applyCollectionOption (WithTokensCollName name) c =
     (if name \<noteq> [] then (None, c\<lparr>tokensCollName := name\<rparr>) else (None, c))"
| "applyCollectionOption (WithTokensCollCapped collSizeInBytes) c =
     (if sint collSizeInBytes \<le> 0 then (Some ErrInvalidCollSizeInBytes, c)
      else (None, c\<lparr>tokensCollCapped := True, tokensCollSizeInBytes := collSizeInBytes\<rparr>))"
| "applyCollectionOption (WithStreamName name) c =
     (if name \<noteq> [] then (None, c\<lparr>streamName := name\<rparr>) else (None, c))"

text \<open>The loop \<open>for _, opt := range opts\<close> of \<open>WithCollection\<close>: the first error ends it.\<close>

fun applyCollectionOptions ::
  "CollectionOption list \<Rightarrow> collection \<Rightarrow> error option \<times> collection" where
  "applyCollectionOptions [] c = (None, c)"
| "applyCollectionOptions (opt # opts) c =
     (case applyCollectionOption opt c of
        (Some err, c') \<Rightarrow> (Some err, c')
      | (None, c') \<Rightarrow> applyCollectionOptions opts c')"

text \<open>The collection literal that \<open>WithCollection\<close> starts from.\<close>

definition newCollection :: "strings_pkg \<Rightarrow> string \<Rightarrow> string \<Rightarrow> collection" where
  "newCollection L db coll =
     \<lparr>dbName = db, collName = coll,
      changeStreamPreAndPostImages = defaultChangeStreamPreAndPostImages,
      tokensDbName = defaultTokensDbName, tokensCollName = coll,
      tokensCollCapped = defaultTokensCollCapped,
      tokensCollSizeInBytes = defaultTokensCollSizeInBytes,
      streamName = ToUpper L coll\<rparr>"

subsection \<open>Connector options\<close>

text \<open>
  An \<open>Option\<close> is a closure \<open>func(*Options) error\<close>, modelled like the collection
  options: \<open>applyOption\<close> returns the error and the \<open>Options\<close> as the call leaves them.
  \<open>WithContext\<close> takes \<open>None\<close> for a nil context.  The argument \<open>L\<close> is the
  library of string functions that \<open>WithLogLevel\<close> and \<open>WithCollection\<close> call.
\<close>

datatype Option =
    WithLogLevel string
  | WithMongoUri string
  | WithNatsUrl string
  | WithContext "context option"
  | WithServerAddr string
  | WithCollection string string "CollectionOption list"

fun applyOption :: "strings_pkg \<Rightarrow> Option \<Rightarrow> Options \<Rightarrow> error option \<times> Options" where
  "applyOption L (WithLogLevel lvl) os =
     (let l = ToLower L lvl in
      if l = ''debug'' then (None, os\<lparr>logLevel := DebugLevel\<rparr>)
      else if l = ''warn'' then (None, os\<lparr>logLevel := WarnLevel\<rparr>)
      else if l = ''error'' then (None, os\<lparr>logLevel := ErrorLevel\<rparr>)
      else if l = ''info'' then (None, os\<lparr>logLevel := InfoLevel\<rparr>)
      else (None, os))"
| "applyOption L (WithMongoUri uri) os =
     (if uri \<noteq> [] then (None, os\<lparr>mongoUri := uri\<rparr>) else (None, os))"
| "applyOption L (WithNatsUrl url) os =
     (if url \<noteq> [] then (None, os\<lparr>natsUrl := url\<rparr>) else (None, os))"
| "applyOption L (WithContext c) os =
     (case c of Some c' \<Rightarrow> (None, os\<lparr>ctx := c'\<rparr>) | None \<Rightarrow> (None, os))"
| "applyOption L (WithServerAddr a) os =
     (if a \<noteq> [] then (None, os\<lparr>serverAddr := a\<rparr>) else (None, os))"
| "applyOption L (WithCollection db coll opts) os =
     (if db = [] then (Some ErrDbNameMissing, os)
      else if coll = [] then (Some ErrCollNameMissing, os)
      else
        (case applyCollectionOptions opts (newCollection L db coll) of
           (Some err, c) \<Rightarrow> (Some err, os)
         | (None, c) \<Rightarrow>
             if EqualFold L (dbName c) (tokensDbName c) \<and>
                EqualFold L (collName c) (tokensCollName c)
             then (Some ErrInvalidDbAndCollNames, os)
             else (None, os\<lparr>collections := collections os @ [c]\<rparr>)))"

text \<open>
  The option loop at the start of \<open>New\<close>, run on \<open>getDefaultOptions\<close>: \<open>New\<close> returns
  the first error an option gives, and goes on with the options otherwise.
\<close>

fun applyOptions :: "strings_pkg \<Rightarrow> Option list \<Rightarrow> Options \<Rightarrow> error + Options" where
  "applyOptions L [] os = Inr os"
| "applyOptions L (opt # opts) os =
     (case applyOption L opt os of
        (Some err, os') \<Rightarrow> Inl err
      | (None, os') \<Rightarrow> applyOptions L opts os')"

section \<open>Package server\<close>

text \<open>
  A \<open>NamedMonitor\<close> has a \<open>Name()\<close> and a \<open>Monitor(ctx)\<close> that returns an error or nil;
  the record holds the name and what \<open>Monitor\<close> returns when it is called.
\<close>

record NamedMonitor =
  Name :: string
  Monitor :: "error option"

datatype Logger = NopLogger | ProductionLogger

text \<open>
  \<open>type Server struct\<close>.  Its \<open>http\<close> field is built by \<open>New\<close> from the other fields
  (the address, and the \<open>/healthz\<close> handler over \<open>monitors\<close>), so it is not a field of
  the record.
\<close>

record Server =
  addr :: string
  server_ctx :: "context"
  monitors :: "NamedMonitor list"
  logger :: Logger

definition defaultAddr :: string where
  "defaultAddr = ''127.0.0.1:18080''"

text \<open>
  A server \<open>Option\<close> is a closure \<open>func(*Server)\<close> with no result.  A nil context,
  logger or slice of monitors is \<open>None\<close>; \<open>WithNamedMonitors\<close> called with no monitor
  receives the nil slice, and a non-nil slice, empty or not, replaces the monitors.
\<close>

datatype ServerOption =
    WithAddr string
  | Server_WithContext "context option"
  | WithNamedMonitors "NamedMonitor list option"
  | WithLogger "Logger option"

fun applyServerOption :: "ServerOption \<Rightarrow> Server \<Rightarrow> Server" where
  "applyServerOption (WithAddr a) s = (if a \<noteq> [] then s\<lparr>addr := a\<rparr> else s)"
| "applyServerOption (Server_WithContext c) s =
     (case c of Some c' \<Rightarrow> s\<lparr>server_ctx := c'\<rparr> | None \<Rightarrow> s)"
| "applyServerOption (WithNamedMonitors ms) s =
     (case ms of Some ms' \<Rightarrow> s\<lparr>monitors := ms'\<rparr> | None \<Rightarrow> s)"
| "applyServerOption (WithLogger l) s =
     (case l of Some l' \<Rightarrow> s\<lparr>logger := l'\<rparr> | None \<Rightarrow> s)"

text \<open>
  The option loop of \<open>New\<close> on the default server.  The \<open>/healthz\<close> handler that
  \<open>New\<close> then registers over \<open>monitors\<close> is not among the source files and is not
  modelled.
\<close>

definition New_Server :: "ServerOption list \<Rightarrow> Server" where
  "New_Server opts =
     foldl (\<lambda>s opt. applyServerOption opt s)
       \<lparr>addr = defaultAddr, server_ctx = Background, monitors = [], logger = NopLogger\<rparr> opts"

section \<open>Package nats: the bus client\<close>

text \<open>A log record: its level, its message and its fields.\<close>

datatype LogEntry =
    LogError string "error option"
  | LogInfo string "(string \<times> string) list"
  | LogDebug string "(string \<times> string) list"

datatype StorageType = FileStorage | MemoryStorage

text \<open>
  The fields of \<open>nats.StreamConfig\<close> that \<open>AddStream\<close> sets; the driver's other fields
  keep their zero values.
\<close>

record StreamConfig =
  cfg_Name :: string
  cfg_Subjects :: "string list"
  cfg_Storage :: StorageType

record AddStreamOptions =
  StreamName :: string

text \<open>
  \<open>DefaultClient.AddStream\<close>.  The JetStream context \<open>c.js\<close> is the driver's: \<open>js\<close> is
  the error (or nil) its \<open>AddStream\<close> returns for a stream configuration.  The result is
  the error \<open>AddStream\<close> returns, the configuration it passed to the driver, and what it
  logged.  \<open>fmt.Sprintf("%s.*", name)\<close> is \<open>name @ ''.*''\<close>.
\<close>

definition AddStream ::
  "(StreamConfig \<Rightarrow> error option) \<Rightarrow> AddStreamOptions
     \<Rightarrow> error option \<times> StreamConfig \<times> LogEntry list" where
  "AddStream js opts =
     (let cfg = \<lparr>cfg_Name = StreamName opts,
                 cfg_Subjects = [StreamName opts @ ''.*''],
                 cfg_Storage = FileStorage\<rparr>
      in case js cfg of
           Some err \<Rightarrow> (Some (ErrCouldNotAddStream (StreamName opts) err), cfg, [])
         | None \<Rightarrow>
             (None, cfg, [LogDebug ''added nats stream'' [(''streamName'', StreamName opts)]]))"

text \<open>
  The handlers \<open>NewDefaultClient\<close> registers.  A handler is a closure that only logs:
  it is modelled by the record it writes, as a function of the error the driver hands to
  a disconnect handler, or of the connection's URL for a reconnect handler.
  \<open>extraOpts\<close> is the slice literal of \<open>NewDefaultClient\<close>, which the loop after it
  applies to \<open>c.opts\<close> entry by entry.
\<close>

datatype natsOption =
    DisconnectErrHandler "error option \<Rightarrow> LogEntry"
  | ReconnectHandler "string \<Rightarrow> LogEntry"
  | ClosedHandler LogEntry

definition extraOpts :: "natsOption list" where
  "extraOpts =
     [DisconnectErrHandler (\<lambda>err. LogError ''disconnected from nats'' err),
      DisconnectErrHandler (\<lambda>err. LogError ''disconnected from nats'' err),
      ReconnectHandler (\<lambda>url. LogInfo ''reconnected to nats'' [(''url'', url)]),
      ClosedHandler (LogInfo ''nats connection closed'' [])]"

fun isDisconnectErrHandler :: "natsOption \<Rightarrow> bool" where
  "isDisconnectErrHandler (DisconnectErrHandler h) = True"
| "isDisconnectErrHandler (ReconnectHandler h) = False"
| "isDisconnectErrHandler (ClosedHandler h) = False"

fun isReconnectHandler :: "natsOption \<Rightarrow> bool" where
  "isReconnectHandler (DisconnectErrHandler h) = False"
| "isReconnectHandler (ReconnectHandler h) = True"
| "isReconnectHandler (ClosedHandler h) = False"

fun isClosedHandler :: "natsOption \<Rightarrow> bool" where
  "isClosedHandler (DisconnectErrHandler h) = False"
| "isClosedHandler (ReconnectHandler h) = False"
| "isClosedHandler (ClosedHandler h) = True"

section \<open>Connector.Run\<close>

text \<open>
  The option structs of package \<open>mongo\<close>, with the fields the tests of the connector
  show.  The \<open>ChangeEventHandler\<close> of \<open>WatchCollectionOptions\<close> is always the same
  closure (publish the event on the bus client), so it is not a field of the record.
\<close>

record CreateCollectionOptions =
  DbName :: string
  CollName :: string
  Capped :: bool
  SizeInBytes :: "64 word"
  ChangeStreamPreAndPostImages :: bool

record WatchCollectionOptions =
  WatchedDbName :: string
  WatchedCollName :: string
  ResumeTokensDbName :: string
  ResumeTokensCollName :: string
  ResumeTokensCollCapped :: bool
  Watch_StreamName :: string

text \<open>
  \<open>Run\<close> acts on its collaborators: it calls the two clients, spawns tasks on the error
  group, logs, and releases the signal handler.  The model records these actions, in
  the order \<open>Run\<close> performs them, as a list of events.
\<close>

datatype client = MongoClient | NatsClient

datatype call =
    CallCreateCollection CreateCollectionOptions
  | CallAddStream AddStreamOptions
  | CallClose client

datatype task =
    WatchCollection WatchCollectionOptions
  | ServerRun
  | ServerClose

datatype event =
    Call call
  | Go task
  | Log LogEntry
  | Stop

text \<open>
  The collaborators are interfaces; what they answer is not the connector's to decide.
  \<open>respond\<close> gives the error (or nil) a client returns for a call, as a function of
  everything \<open>Run\<close> has done before it, so that a client may answer the same call
  differently at different times, whatever the spawned tasks do meanwhile.  \<open>wait\<close> is
  the outcome of \<open>group.Wait()\<close> after the given events: \<open>None\<close> when it blocks for
  ever, the first task error (or nil) otherwise.
\<close>

record env =
  respond :: "event list \<Rightarrow> call \<Rightarrow> error option"
  wait :: "event list \<Rightarrow> error option option"

text \<open>
  \<open>type Connector struct\<close>: its options; the logger, the clients and the server are
  the collaborators above.
\<close>

record Connector =
  options :: Options

definition createWatchedCollOpts :: "collection \<Rightarrow> CreateCollectionOptions" where
  "createWatchedCollOpts coll =
     \<lparr>DbName = dbName coll, CollName = collName coll, Capped = False, SizeInBytes = 0,
      ChangeStreamPreAndPostImages = changeStreamPreAndPostImages coll\<rparr>"

definition createResumeTokensCollOpts :: "collection \<Rightarrow> CreateCollectionOptions" where
  "createResumeTokensCollOpts coll =
     \<lparr>DbName = tokensDbName coll, CollName = tokensCollName coll,
      Capped = tokensCollCapped coll, SizeInBytes = tokensCollSizeInBytes coll,
      ChangeStreamPreAndPostImages = False\<rparr>"

definition addStreamOpts :: "collection \<Rightarrow> AddStreamOptions" where
  "addStreamOpts coll = \<lparr>StreamName = streamName coll\<rparr>"

definition watchCollOpts :: "collection \<Rightarrow> WatchCollectionOptions" where
  "watchCollOpts coll =
     \<lparr>WatchedDbName = dbName coll, WatchedCollName = collName coll,
      ResumeTokensDbName = tokensDbName coll, ResumeTokensCollName = tokensCollName coll,
      ResumeTokensCollCapped = tokensCollCapped coll, Watch_StreamName = streamName coll\<rparr>"

text \<open>A call on a client: its answer, and the call added to the events.\<close>

definition do_call :: "env \<Rightarrow> call \<Rightarrow> event list \<Rightarrow> error option \<times> event list" where
  "do_call e c tr = (respond e tr c, tr @ [Call c])"

text \<open>
  The loop \<open>for _, _coll := range c.options.collections\<close> of \<open>Run\<close>: three calls, each
  returning from \<open>Run\<close> with its error, then \<open>group.Go\<close> of the collection's watcher.
\<close>

fun Run_loop :: "env \<Rightarrow> collection list \<Rightarrow> event list \<Rightarrow> error option \<times> event list" where
  "Run_loop e [] tr = (None, tr)"
| "Run_loop e (coll # colls) tr =
     (case do_call e (CallCreateCollection (createWatchedCollOpts coll)) tr of
        (Some err, tr1) \<Rightarrow> (Some err, tr1)
      | (None, tr1) \<Rightarrow>
          (case do_call e (CallCreateCollection (createResumeTokensCollOpts coll)) tr1 of
             (Some err, tr2) \<Rightarrow> (Some err, tr2)
           | (None, tr2) \<Rightarrow>
               (case do_call e (CallAddStream (addStreamOpts coll)) tr2 of
                  (Some err, tr3) \<Rightarrow> (Some err, tr3)
                | (None, tr3) \<Rightarrow>
                    Run_loop e colls (tr3 @ [Go (WatchCollection (watchCollOpts coll))]))))"

text \<open>
  The body of \<open>Run\<close> after \<open>defer c.cleanup()\<close>: the loop, the two server tasks, and
  \<open>return group.Wait()\<close>.  \<open>None\<close> when \<open>Wait\<close> never returns.
\<close>

definition Run_body :: "env \<Rightarrow> Connector \<Rightarrow> (error option \<times> event list) option" where
  "Run_body e c =
     (case Run_loop e (collections (options c)) [] of
        (Some err, tr) \<Rightarrow> Some (Some err, tr)
      | (None, tr) \<Rightarrow>
          (let tr' = tr @ [Go ServerRun, Go ServerClose]
           in case wait e tr' of
                None \<Rightarrow> None
              | Some r \<Rightarrow> Some (r, tr')))"

definition closeClient :: "env \<Rightarrow> client \<Rightarrow> event list \<Rightarrow> event list" where
  "closeClient e cl tr =
     (case do_call e (CallClose cl) tr of
        (Some err, tr') \<Rightarrow> tr' @ [Log (LogError ''could not close client'' (Some err))]
      | (None, tr') \<Rightarrow> tr')"

definition cleanup :: "env \<Rightarrow> event list \<Rightarrow> event list" where
  "cleanup e tr = closeClient e NatsClient (closeClient e MongoClient tr) @ [Stop]"

text \<open>
  \<open>Run\<close>: the deferred \<open>cleanup\<close> runs when the body returns; \<open>Run\<close> has no named
  result, so the value the body returns is the value of \<open>Run\<close>.
\<close>

definition Run :: "env \<Rightarrow> Connector \<Rightarrow> (error option \<times> event list) option" where
  "Run e c =
     (case Run_body e c of
        None \<Rightarrow> None
      | Some (ret, tr) \<Rightarrow> Some (ret, cleanup e tr))"

text \<open>Reading the events: the tasks spawned, and the events of \<open>cleanup\<close>.\<close>

fun spawned :: "event list \<Rightarrow> task list" where
  "spawned [] = []"
| "spawned (Go t # evs) = t # spawned evs"
| "spawned (ev # evs) = spawned evs"

fun is_cleanup :: "event \<Rightarrow> bool" where
  "is_cleanup (Call (CallClose cl)) = True"
| "is_cleanup Stop = True"
| "is_cleanup ev = False"

fun is_log :: "event \<Rightarrow> bool" where
  "is_log (Log l) = True"
| "is_log ev = False"

text \<open>The events of one collection's turn of the loop when its three calls succeed.\<close>

definition bootstrap_events :: "collection \<Rightarrow> event list" where
  "bootstrap_events coll =
     [Call (CallCreateCollection (createWatchedCollOpts coll)),
      Call (CallCreateCollection (createResumeTokensCollOpts coll)),
      Call (CallAddStream (addStreamOpts coll)),
      Go (WatchCollection (watchCollOpts coll))]"

text \<open>
  The three calls of one collection's turn, in the order the loop makes them, and the
  collaborators' answer to the \<open>j\<close>-th of them when the turn starts after the events
  \<open>tr\<close> and the calls before it in the turn have been made.
\<close>

definition ddl_calls :: "collection \<Rightarrow> call list" where
  "ddl_calls coll =
     [CallCreateCollection (createWatchedCollOpts coll),
      CallCreateCollection (createResumeTokensCollOpts coll),
      CallAddStream (addStreamOpts coll)]"

definition step_answer :: "env \<Rightarrow> event list \<Rightarrow> collection \<Rightarrow> nat \<Rightarrow> error option" where
  "step_answer e tr coll j =
     respond e (tr @ map Call (take j (ddl_calls coll))) (ddl_calls coll ! j)"

text \<open>
  The collaborators answer nil to the three calls of a turn; and to the calls of the
  turns of a list of collections, each turn starting after the events of the turns
  before it.
\<close>

definition turn_ok :: "env \<Rightarrow> event list \<Rightarrow> collection \<Rightarrow> bool" where
  "turn_ok e tr coll =
     (step_answer e tr coll 0 = None \<and> step_answer e tr coll 1 = None \<and>
      step_answer e tr coll 2 = None)"

fun turns_ok :: "env \<Rightarrow> event list \<Rightarrow> collection list \<Rightarrow> bool" where
  "turns_ok e tr [] = True"
| "turns_ok e tr (coll # colls) =
     (turn_ok e tr coll \<and> turns_ok e (tr @ bootstrap_events coll) colls)"

text \<open>The same collaborators, but with the given answers to \<open>Close\<close>.\<close>

definition with_close_results :: "(event list \<Rightarrow> client \<Rightarrow> error option) \<Rightarrow> env \<Rightarrow> env" where
  "with_close_results f e =
     e\<lparr>respond := \<lambda>tr c. case c of CallClose cl \<Rightarrow> f tr cl | _ \<Rightarrow> respond e tr c\<rparr>"

section \<open>Fixtures\<close>

text \<open>
  Two collections configured with their defaults, as \<open>WithCollection("connector-db",
  "coll1")\<close> and \<open>WithCollection("connector-db", "coll2")\<close> leave them, and connectors
  over one and over both.
\<close>

definition collA :: collection where
  "collA = newCollection asciiStrings ''connector-db'' ''coll1''"

definition collB :: collection where
  "collB = newCollection asciiStrings ''connector-db'' ''coll2''"

definition oneCollection :: Connector where
  "oneCollection = \<lparr>options = getDefaultOptions\<lparr>collections := [collA]\<rparr>\<rparr>"

definition twoCollections :: Connector where
  "twoCollections = \<lparr>options = getDefaultOptions\<lparr>collections := [collA, collB]\<rparr>\<rparr>"

text \<open>
  Collaborators in the manner of the mocks of \<open>TestConnector_Run\<close>: a document store
  whose \<open>CreateCollection\<close> fails for the collection \<open>coll2\<close> only, and clients whose
  \<open>Close\<close> fails while the task group ends with the HTTP server's closed-server error.
\<close>

definition failSecond :: env where
  "failSecond =
     \<lparr>respond = (\<lambda>tr c. case c of
          CallCreateCollection opts \<Rightarrow>
            if CollName opts = ''coll2'' then Some (ErrExternal ''create collection error'')
            else None
        | _ \<Rightarrow> None),
      wait = (\<lambda>tr. Some None)\<rparr>"

definition closeFails :: env where
  "closeFails =
     \<lparr>respond = (\<lambda>tr c. case c of
          CallClose cl \<Rightarrow> Some (ErrExternal ''close error'')
        | _ \<Rightarrow> None),
      wait = (\<lambda>tr. Some (Some (ErrExternal ''http: Server closed'')))\<rparr>"

section \<open>Auxiliary lemmas\<close>

lemmas string_eval =
  asciiStrings_def toLowerByte_def toUpperByte_def upperLetters_def lowerLetters_def

lemmas default_eval =
  newCollection_def defaultTokensDbName_def defaultChangeStreamPreAndPostImages_def
  defaultTokensCollCapped_def defaultTokensCollSizeInBytes_def

subsection \<open>Collection options keep the watched names and fail in one way only\<close>





subsection \<open>The events of Run\<close>

lemma spawned_append: "spawned (xs @ ys) = spawned xs @ spawned ys"
  by (induction xs rule: spawned.induct) simp_all

lemma spawned_bootstrap_events:
  "spawned (bootstrap_events coll) = [WatchCollection (watchCollOpts coll)]"
  by (simp add: bootstrap_events_def)

lemma spawned_concat_bootstrap:
  "spawned (concat (map bootstrap_events colls)) =
     map (\<lambda>coll. WatchCollection (watchCollOpts coll)) colls"
  by (induction colls) (simp_all add: spawned_append spawned_bootstrap_events)

lemma spawned_take_bootstrap:
  "k < 3 \<Longrightarrow> spawned (take (Suc k) (bootstrap_events coll)) = []"
proof -
  assume "k < 3"
  then consider "k = 0" | "k = 1" | "k = 2" by linarith
  then show ?thesis
    by cases (simp_all add: bootstrap_events_def numeral_2_eq_2)
qed

lemma spawned_closeClient: "spawned (closeClient e cl tr) = spawned tr"
  by (simp add: closeClient_def do_call_def spawned_append split: option.splits)

lemma spawned_cleanup: "spawned (cleanup e tr) = spawned tr"
  by (simp add: cleanup_def spawned_append spawned_closeClient)

text \<open>
  A turn whose three calls are answered nil adds its four events and leaves the loop to
  the remaining collections; so do the turns of a list of such collections.
\<close>

lemma Run_loop_turn_ok:
  "turn_ok e tr coll \<Longrightarrow>
   Run_loop e (coll # rest) tr = Run_loop e rest (tr @ bootstrap_events coll)"
  by (simp add: turn_ok_def step_answer_def ddl_calls_def do_call_def bootstrap_events_def
      numeral_2_eq_2)

lemma Run_loop_turns_ok:
  "turns_ok e tr pre \<Longrightarrow>
   Run_loop e (pre @ rest) tr = Run_loop e rest (tr @ concat (map bootstrap_events pre))"
proof (induction pre arbitrary: tr)
  case Nil
  then show ?case by simp
next
  case (Cons coll pre)
  from Cons.prems have ok: "turn_ok e tr coll" and oks: "turns_ok e (tr @ bootstrap_events coll) pre"
    by simp_all
  have "Run_loop e ((coll # pre) @ rest) tr = Run_loop e (pre @ rest) (tr @ bootstrap_events coll)"
    using Run_loop_turn_ok [OF ok] by simp
  also have "\<dots> = Run_loop e rest ((tr @ bootstrap_events coll) @ concat (map bootstrap_events pre))"
    by (rule Cons.IH [OF oks])
  finally show ?case by simp
qed

text \<open>
  A turn in which the \<open>k\<close>-th call is the first to be answered with an error ends the
  loop with that error, right after that call.
\<close>

lemma Run_loop_failing_turn:
  assumes "k < 3"
    and "\<forall>j<k. step_answer e tr coll j = None"
    and "step_answer e tr coll k = Some err"
  shows "Run_loop e (coll # rest) tr = (Some err, tr @ take (Suc k) (bootstrap_events coll))"
proof -
  from assms(1) consider "k = 0" | "k = 1" | "k = 2" by linarith
  then show ?thesis
  proof cases
    case 1
    with assms(3) show ?thesis
      by (simp add: step_answer_def ddl_calls_def do_call_def bootstrap_events_def)
  next
    case 2
    with assms(2) have "step_answer e tr coll 0 = None" by simp
    with 2 assms(3) show ?thesis
      by (simp add: step_answer_def ddl_calls_def do_call_def bootstrap_events_def)
  next
    case 3
    with assms(2) have "step_answer e tr coll 0 = None" "step_answer e tr coll 1 = None"
      by simp_all
    with 3 assms(3) show ?thesis
      by (simp add: step_answer_def ddl_calls_def do_call_def bootstrap_events_def
          numeral_2_eq_2)
  qed
qed

lemma Run_loop_no_cleanup:
  "Run_loop e colls tr = (r, tr') \<Longrightarrow> filter is_cleanup tr' = filter is_cleanup tr"
proof (induction colls arbitrary: tr)
  case Nil
  then show ?case by simp
next
  case (Cons coll colls)
  show ?case
  proof (cases "fst (Run_loop e [coll] tr)")
    case None
    with Cons.prems have "Run_loop e colls (tr @ bootstrap_events coll) = (r, tr')"
      by (auto simp: do_call_def bootstrap_events_def split: option.splits)
    from Cons.IH [OF this] show ?thesis by (simp add: bootstrap_events_def)
  next
    case (Some err)
    with Cons.prems show ?thesis
      by (auto simp: do_call_def split: option.splits)
  qed
qed

lemma Run_body_no_cleanup:
  "Run_body e c = Some (ret, tr) \<Longrightarrow> filter is_cleanup tr = []"
proof -
  assume b: "Run_body e c = Some (ret, tr)"
  obtain r tr0 where l: "Run_loop e (collections (options c)) [] = (r, tr0)"
    by (cases "Run_loop e (collections (options c)) []")
  from Run_loop_no_cleanup [OF l] have "filter is_cleanup tr0 = []" by simp
  with b l show ?thesis
    by (auto simp: Run_body_def Let_def split: option.splits)
qed

text \<open>The body of \<open>Run\<close> makes no \<open>Close\<close> call, so the answers to \<open>Close\<close> do not reach it.\<close>

lemma respond_with_close_results:
  "respond (with_close_results f e) tr (CallCreateCollection opts) =
     respond e tr (CallCreateCollection opts)"
  "respond (with_close_results f e) tr (CallAddStream sopts) = respond e tr (CallAddStream sopts)"
  "respond (with_close_results f e) tr (CallClose cl) = f tr cl"
  "wait (with_close_results f e) = wait e"
  by (simp_all add: with_close_results_def)

lemma Run_loop_with_close_results:
  "Run_loop (with_close_results f e) colls tr = Run_loop e colls tr"
  by (induction colls arbitrary: tr)
    (simp_all add: do_call_def respond_with_close_results cong: option.case_cong)

lemma Run_body_with_close_results:
  "Run_body (with_close_results f e) c = Run_body e c"
  by (simp add: Run_body_def Run_loop_with_close_results respond_with_close_results
      cong: prod.case_cong option.case_cong)

lemma cleanup_suffix:
  "\<exists>suf. cleanup e tr = tr @ suf \<and>
     filter is_cleanup suf = [Call (CallClose MongoClient), Call (CallClose NatsClient), Stop] \<and>
     (\<forall>ev\<in>set suf. is_cleanup ev \<or> is_log ev) \<and> last (cleanup e tr) = Stop"
  by (simp add: cleanup_def closeClient_def do_call_def split: option.splits)

lemma Run_loop_failSecond:
  "Run_loop failSecond (collections (options twoCollections)) [] =
     (Some (ErrExternal ''create collection error''),
      bootstrap_events collA @ [Call (CallCreateCollection (createWatchedCollOpts collB))])"
  by (simp add: twoCollections_def failSecond_def collA_def collB_def do_call_def
      bootstrap_events_def createWatchedCollOpts_def createResumeTokensCollOpts_def
      newCollection_def getDefaultOptions_def)

lemma failSecond_answers:
  "turns_ok failSecond [] [collA]"
  "step_answer failSecond (concat (map bootstrap_events [collA])) collB 0 =
     Some (ErrExternal ''create collection error'')"
  by (simp_all add: turn_ok_def step_answer_def ddl_calls_def failSecond_def collA_def collB_def
      createWatchedCollOpts_def createResumeTokensCollOpts_def newCollection_def
      numeral_2_eq_2)

section \<open>Verified properties\<close>

subsection \<open>Bootstrap failures\<close>

text \<open>
  C2 (as amended).  For every configured list of collections, if a bootstrap step of
  \<open>Connector.Run\<close> (create the watched collection, then the resume-token collection,
  then the bus stream, in that order for each collection) returns an error, then \<open>Run\<close>
  returns that very error, and no watcher has been spawned for the collection whose
  step failed or for any later collection; the watchers of the collections before it
  have been spawned, and neither server task has been.  In the statement, the failing
  step is the \<open>k\<close>-th call of the turn of \<open>coll\<close>; that \<open>Run\<close> performs it means that
  the collaborators answered nil to every call of the collections \<open>pre\<close> before
  \<open>coll\<close> and to the calls before it in the turn of \<open>coll\<close>.
\<close>

theorem Run_bootstrap_failure:
  assumes "collections (options c) = pre @ coll # post"
    and "turns_ok e [] pre"
    and "k < 3"
    and "\<forall>j<k. step_answer e (concat (map bootstrap_events pre)) coll j = None"
    and "step_answer e (concat (map bootstrap_events pre)) coll k = Some err"
  shows "Run e c =
           Some (Some err,
                 cleanup e (concat (map bootstrap_events pre) @
                            take (Suc k) (bootstrap_events coll))) \<and>
         spawned (cleanup e (concat (map bootstrap_events pre) @
                             take (Suc k) (bootstrap_events coll))) =
           map (\<lambda>coll. WatchCollection (watchCollOpts coll)) pre"
proof -
  let ?tr = "concat (map bootstrap_events pre)"
  have "Run_loop e (collections (options c)) [] = Run_loop e (coll # post) ?tr"
    using Run_loop_turns_ok [OF assms(2), of "coll # post"] assms(1) by simp
  also have "\<dots> = (Some err, ?tr @ take (Suc k) (bootstrap_events coll))"
    by (rule Run_loop_failing_turn [OF assms(3) assms(4) assms(5)])
  finally have loop: "Run_loop e (collections (options c)) [] =
      (Some err, ?tr @ take (Suc k) (bootstrap_events coll))" .
  then have run: "Run e c = Some (Some err, cleanup e (?tr @ take (Suc k) (bootstrap_events coll)))"
    by (simp add: Run_def Run_body_def)
  have "spawned (?tr @ take (Suc k) (bootstrap_events coll)) =
      map (\<lambda>coll. WatchCollection (watchCollOpts coll)) pre"
    using assms(3) by (simp add: spawned_append spawned_concat_bootstrap spawned_take_bootstrap)
  with run show ?thesis by (simp add: spawned_cleanup)
qed

theorem Run_bootstrap_failure_witness:
  "collections (options twoCollections) = [collA] @ collB # [] \<and>
   turns_ok failSecond [] [collA] \<and>
   step_answer failSecond (concat (map bootstrap_events [collA])) collB 0 =
     Some (ErrExternal ''create collection error'') \<and>
   Run failSecond twoCollections =
     Some (Some (ErrExternal ''create collection error''),
           cleanup failSecond (concat (map bootstrap_events [collA]) @
                               take (Suc 0) (bootstrap_events collB))) \<and>
   spawned (cleanup failSecond (concat (map bootstrap_events [collA]) @
                                take (Suc 0) (bootstrap_events collB))) =
     map (\<lambda>coll. WatchCollection (watchCollOpts coll)) [collA]"
proof -
  have colls: "collections (options twoCollections) = [collA] @ collB # []"
    by (simp add: twoCollections_def getDefaultOptions_def)
  have k: "(0::nat) < 3" by simp
  have before: "\<forall>j<(0::nat). step_answer failSecond (concat (map bootstrap_events [collA])) collB j = None"
    by simp
  from Run_bootstrap_failure [OF colls failSecond_answers(1) k before failSecond_answers(2)]
    colls failSecond_answers
  show ?thesis by blast
qed

text \<open>
  The specification's own sentence has no watcher spawned for any collection.  With two
  collections, when the first collection's three steps succeed and the creation of the
  second watched collection fails, \<open>Run\<close> returns that error and the watcher of the
  first collection has been spawned.
\<close>

theorem Run_bootstrap_failure_counterexample:
  "map_option fst (Run failSecond twoCollections) =
     Some (Some (ErrExternal ''create collection error'')) \<and>
   map_option (\<lambda>r. spawned (snd r)) (Run failSecond twoCollections) =
     Some [WatchCollection (watchCollOpts collA)]"
  by (simp add: Run_def Run_body_def Run_loop_failSecond spawned_cleanup spawned_append
      spawned_bootstrap_events)

subsection \<open>Options\<close>

text \<open>
  C3.  For every input string whose lower-casing is not one of \<open>debug\<close>, \<open>warn\<close>,
  \<open>error\<close>, \<open>info\<close>, the option returned by \<open>WithLogLevel\<close> returns nil and leaves
  the options, the \<open>logLevel\<close> field and every other field, unchanged.  The lower-casing
  is the library's, whatever it is.
\<close>

theorem WithLogLevel_unknown:
  "ToLower L lvl \<notin> {''debug'', ''warn'', ''error'', ''info''} \<Longrightarrow>
   applyOption L (WithLogLevel lvl) os = (None, os)"
  by (simp add: Let_def)

theorem WithLogLevel_unknown_witness:
  "ToLower asciiStrings ''FATAL'' \<notin> {''debug'', ''warn'', ''error'', ''info''} \<and>
   applyOption asciiStrings (WithLogLevel ''FATAL'') (getDefaultOptions\<lparr>logLevel := WarnLevel\<rparr>)
     = (None, getDefaultOptions\<lparr>logLevel := WarnLevel\<rparr>)"
proof -
  have h: "ToLower asciiStrings ''FATAL'' \<notin> {''debug'', ''warn'', ''error'', ''info''}"
    by (simp add: string_eval)
  from WithLogLevel_unknown [OF h] h show ?thesis by simp
qed




text \<open>
  C5.  \<open>WithTokensCollCapped(s)\<close>: for every size \<open>s \<le> 0\<close> the option returns
  \<open>ErrInvalidCollSizeInBytes\<close> and leaves the collection, so also its
  \<open>tokensCollCapped\<close> and \<open>tokensCollSizeInBytes\<close> fields, unchanged; for every
  \<open>s > 0\<close> it returns nil, sets \<open>tokensCollCapped\<close> to true and
  \<open>tokensCollSizeInBytes\<close> to \<open>s\<close>.
\<close>

theorem WithTokensCollCapped_spec:
  "(sint s \<le> 0 \<longrightarrow>
      applyCollectionOption (WithTokensCollCapped s) c = (Some ErrInvalidCollSizeInBytes, c)) \<and>
   (0 < sint s \<longrightarrow>
      applyCollectionOption (WithTokensCollCapped s) c =
        (None, c\<lparr>tokensCollCapped := True, tokensCollSizeInBytes := s\<rparr>))"
  by simp

theorem WithTokensCollCapped_spec_witness:
  "sint (-1 :: 64 word) \<le> 0 \<and> 0 < sint (2048 :: 64 word) \<and>
   applyCollectionOption (WithTokensCollCapped (-1)) collA
     = (Some ErrInvalidCollSizeInBytes, collA) \<and>
   applyCollectionOption (WithTokensCollCapped 2048) collA
     = (None, collA\<lparr>tokensCollCapped := True, tokensCollSizeInBytes := 2048\<rparr>)"
  using WithTokensCollCapped_spec [of "-1" collA] WithTokensCollCapped_spec [of 2048 collA]
  by simp

text \<open>
  C6 (as amended).  For every non-empty \<open>dbName\<close> and \<open>collName\<close>,
  \<open>WithCollection(dbName, collName)\<close> with no collection options does one of two
  things.  When \<open>dbName\<close> differs from the default tokens database name
  \<open>resume-tokens\<close> under the case-insensitive comparison \<open>strings.EqualFold\<close>, it
  appends exactly one collection whose fields are: \<open>changeStreamPreAndPostImages\<close>
  false, \<open>tokensDbName\<close> \<open>resume-tokens\<close>, \<open>tokensCollName\<close> equal to \<open>collName\<close>,
  \<open>tokensCollCapped\<close> false, \<open>tokensCollSizeInBytes\<close> 0, and \<open>streamName\<close> the
  upper-casing \<open>strings.ToUpper\<close> of \<open>collName\<close>.  Otherwise it fails with
  \<open>ErrInvalidDbAndCollNames\<close> and appends nothing.  The one fact about the library
  that is used is that \<open>EqualFold\<close> holds of \<open>collName\<close> and itself.
\<close>

theorem WithCollection_defaults:
  assumes "db \<noteq> []" and "coll \<noteq> []" and "EqualFold L coll coll"
  shows "applyOption L (WithCollection db coll []) os =
     (if EqualFold L db ''resume-tokens'' then (Some ErrInvalidDbAndCollNames, os)
      else (None, os\<lparr>collections := collections os @
             [\<lparr>dbName = db, collName = coll, changeStreamPreAndPostImages = False,
               tokensDbName = ''resume-tokens'', tokensCollName = coll,
               tokensCollCapped = False, tokensCollSizeInBytes = 0,
               streamName = ToUpper L coll\<rparr>]\<rparr>))"
  using assms by (simp add: default_eval)

theorem WithCollection_defaults_witness:
  "''connector-db'' \<noteq> [] \<and> ''coll1'' \<noteq> [] \<and> EqualFold asciiStrings ''coll1'' ''coll1'' \<and>
   \<not> EqualFold asciiStrings ''connector-db'' ''resume-tokens'' \<and>
   applyOption asciiStrings (WithCollection ''connector-db'' ''coll1'' []) getDefaultOptions =
     (None, getDefaultOptions\<lparr>collections :=
             [\<lparr>dbName = ''connector-db'', collName = ''coll1'',
               changeStreamPreAndPostImages = False,
               tokensDbName = ''resume-tokens'', tokensCollName = ''coll1'',
               tokensCollCapped = False, tokensCollSizeInBytes = 0,
               streamName = ''COLL1''\<rparr>]\<rparr>)"
  using WithCollection_defaults [of "''connector-db''" "''coll1''" asciiStrings getDefaultOptions]
  by (simp add: string_eval default_eval getDefaultOptions_def)

text \<open>
  The specification's own sentence has a collection appended for every non-empty
  \<open>dbName\<close>.  For a watched database named \<open>Resume-Tokens\<close> the default tokens
  collection would be the watched collection itself, and the option fails instead.
\<close>

theorem WithCollection_defaults_counterexample:
  "applyOption asciiStrings (WithCollection ''Resume-Tokens'' ''coll1'' []) getDefaultOptions
     = (Some ErrInvalidDbAndCollNames, getDefaultOptions) \<and>
   collections (snd (applyOption asciiStrings (WithCollection ''Resume-Tokens'' ''coll1'' [])
     getDefaultOptions)) = []"
  by (simp add: string_eval default_eval getDefaultOptions_def)

subsection \<open>Cleanup\<close>

text \<open>
  C7.  Whenever \<open>Connector.Run\<close> returns, for any outcome of its body (a bootstrap
  error, or whatever the task group ends with), the events of \<open>Run\<close> are those of its
  body followed by the cleanup: the body closes no client and does not release the
  signal handler; the cleanup closes the document store's client, then the bus client,
  then releases the signal handler, in that order, the release being the last event, and
  does nothing else but log.  The value \<open>Run\<close> returns is the value of its body, and it
  stays the same whatever the two \<open>Close\<close> calls return.
\<close>

theorem Run_cleanup:
  assumes "Run e c = Some (ret, tr)"
  shows "\<exists>pre suf. Run_body e c = Some (ret, pre) \<and> tr = pre @ suf \<and>
           filter is_cleanup pre = [] \<and>
           filter is_cleanup suf =
             [Call (CallClose MongoClient), Call (CallClose NatsClient), Stop] \<and>
           (\<forall>ev\<in>set suf. is_cleanup ev \<or> is_log ev) \<and> last tr = Stop \<and>
           (\<forall>f. map_option fst (Run (with_close_results f e) c) = Some ret)"
proof -
  from assms obtain pre where b: "Run_body e c = Some (ret, pre)" and t: "tr = cleanup e pre"
    by (auto simp: Run_def split: option.splits)
  from cleanup_suffix [of e pre] obtain suf where
    s: "cleanup e pre = pre @ suf"
       "filter is_cleanup suf = [Call (CallClose MongoClient), Call (CallClose NatsClient), Stop]"
       "\<forall>ev\<in>set suf. is_cleanup ev \<or> is_log ev" "last (cleanup e pre) = Stop"
    by blast
  have indep: "\<forall>f. map_option fst (Run (with_close_results f e) c) = Some ret"
    using b by (simp add: Run_def Run_body_with_close_results)
  from b t s indep Run_body_no_cleanup [OF b] show ?thesis by auto
qed

theorem Run_cleanup_witness:
  "Run closeFails oneCollection =
     Some (Some (ErrExternal ''http: Server closed''),
       bootstrap_events collA @ [Go ServerRun, Go ServerClose] @
       [Call (CallClose MongoClient),
        Log (LogError ''could not close client'' (Some (ErrExternal ''close error''))),
        Call (CallClose NatsClient),
        Log (LogError ''could not close client'' (Some (ErrExternal ''close error''))),
        Stop]) \<and>
   (\<forall>f. map_option fst (Run (with_close_results f closeFails) oneCollection) =
          Some (Some (ErrExternal ''http: Server closed'')))"
proof -
  have r: "Run closeFails oneCollection =
     Some (Some (ErrExternal ''http: Server closed''),
       bootstrap_events collA @ [Go ServerRun, Go ServerClose] @
       [Call (CallClose MongoClient),
        Log (LogError ''could not close client'' (Some (ErrExternal ''close error''))),
        Call (CallClose NatsClient),
        Log (LogError ''could not close client'' (Some (ErrExternal ''close error''))),
        Stop])"
    by (simp add: Run_def Run_body_def cleanup_def closeClient_def do_call_def closeFails_def
        oneCollection_def bootstrap_events_def getDefaultOptions_def)
  from Run_cleanup [OF r] r show ?thesis by blast
qed

subsection \<open>The bus client\<close>

text \<open>
  C8.  For every stream name \<open>s\<close>, \<open>AddStream\<close> with \<open>StreamName\<close> \<open>s\<close> asks the
  driver for a stream with name \<open>s\<close>, subjects exactly the one-element list
  \<open>[s + ".*"]\<close> and file storage, and it returns an error if and only if the driver's
  call fails; the error then carries the stream name and the driver's error.
\<close>

theorem AddStream_spec:
  "fst (snd (AddStream js \<lparr>StreamName = s\<rparr>)) =
     \<lparr>cfg_Name = s, cfg_Subjects = [s @ ''.*''], cfg_Storage = FileStorage\<rparr> \<and>
   (fst (AddStream js \<lparr>StreamName = s\<rparr>) \<noteq> None) =
     (js \<lparr>cfg_Name = s, cfg_Subjects = [s @ ''.*''], cfg_Storage = FileStorage\<rparr> \<noteq> None) \<and>
   fst (AddStream js \<lparr>StreamName = s\<rparr>) =
     map_option (ErrCouldNotAddStream s)
       (js \<lparr>cfg_Name = s, cfg_Subjects = [s @ ''.*''], cfg_Storage = FileStorage\<rparr>)"
  by (simp add: AddStream_def Let_def split: option.splits)

text \<open>
  C9.  The option list that \<open>NewDefaultClient\<close> applies to the connection options
  holds the disconnect handler twice: its first two entries are
  \<open>DisconnectErrHandler\<close> entries with the same handler, and they are its only
  disconnect entries; beside them it holds one reconnect handler and one closed handler,
  four entries in all.
\<close>

theorem extraOpts_disconnect_twice:
  "filter isDisconnectErrHandler extraOpts =
     [DisconnectErrHandler (\<lambda>err. LogError ''disconnected from nats'' err),
      DisconnectErrHandler (\<lambda>err. LogError ''disconnected from nats'' err)] \<and>
   extraOpts ! 0 = extraOpts ! 1 \<and>
   length (filter isReconnectHandler extraOpts) = 1 \<and>
   length (filter isClosedHandler extraOpts) = 1 \<and>
   length extraOpts = 4"
  by (simp add: extraOpts_def)

subsection \<open>Empty strings\<close>

text \<open>
  C10.  Each string-valued option applied with the empty string is a no-op:
  \<open>WithAddr\<close> leaves the server unchanged; \<open>WithMongoUri\<close>, \<open>WithNatsUrl\<close> and
  \<open>WithServerAddr\<close> return nil and leave the options unchanged; \<open>WithTokensDbName\<close>,
  \<open>WithTokensCollName\<close> and \<open>WithStreamName\<close> return nil and leave the collection
  unchanged.  What was set before, a default included, is retained.
\<close>

theorem empty_string_options_noop:
  "applyServerOption (WithAddr []) s = s \<and>
   applyOption L (WithMongoUri []) os = (None, os) \<and>
   applyOption L (WithNatsUrl []) os = (None, os) \<and>
   applyOption L (WithServerAddr []) os = (None, os) \<and>
   applyCollectionOption (WithTokensDbName []) c = (None, c) \<and>
   applyCollectionOption (WithTokensCollName []) c = (None, c) \<and>
   applyCollectionOption (WithStreamName []) c = (None, c)"
  by simp

end
